theory Spec2Isabelle
  imports Main "HOL-Library.Monad_Syntax"
begin

section \<open>The standard output stream\<close>

text \<open>
  The program's only effect is on \<^verbatim>\<open>std::cout\<close>. The stream is modelled by the
  characters inserted but not yet flushed and the characters already handed to standard
  output. The bytes a reader of standard output sees once the stream is flushed (at the
  latest at process exit) are \<open>delivered\<close> followed by \<open>buffered\<close>. Writes to standard
  output are taken to succeed: the stream's error bits are not modelled.
\<close>

definition newline :: char where
  "newline = CHR 0x0A"

record ostream =
  buffered :: string
  delivered :: string

definition stdout_of :: "ostream \<Rightarrow> string" where
  "stdout_of c = delivered c @ buffered c"

text \<open>\<^verbatim>\<open>os << "text"\<close>: the characters go to the stream's buffer.\<close>

definition ostream_insert :: "string \<Rightarrow> ostream \<Rightarrow> ostream" where
  "ostream_insert s c = c\<lparr>buffered := buffered c @ s\<rparr>"

definition ostream_flush :: "ostream \<Rightarrow> ostream" where
  "ostream_flush c = \<lparr>buffered = [], delivered = delivered c @ buffered c\<rparr>"

text \<open>\<^verbatim>\<open>os << std::endl\<close>: inserts a newline character, then flushes the stream.\<close>

definition ostream_endl :: "ostream \<Rightarrow> ostream" where
  "ostream_endl c = ostream_flush (ostream_insert [newline] c)"

text \<open>
  The lines of a byte string: each line ends at a newline character; characters after
  the last newline form a final, unterminated line.
\<close>

fun split_lines :: "string \<Rightarrow> string \<Rightarrow> string list" where
  "split_lines cur [] = (if cur = [] then [] else [cur])"
| "split_lines cur (ch # cs) =
     (if ch = newline then cur # split_lines [] cs else split_lines (cur @ [ch]) cs)"

definition lines_of :: "string \<Rightarrow> string list" where
  "lines_of s = split_lines [] s"

section \<open>The process\<close>

text \<open>
  What a run can see and change: the command line, the environment, and \<^verbatim>\<open>std::cout\<close>.
  The field \<open>trace\<close> is a ghost log of the operations performed so far, oldest first; no
  operation reads it. It exists to state in which order the entry point does its work.
\<close>

datatype event =
    Construct_HelloShared
  | Construct_HelloStatic
  | Call_HelloShared_sayHello
  | Call_HelloStatic_sayHello
  | Cout_insert string
  | Cout_endl

record process =
  argv :: "string list"
  environ :: "(string \<times> string) list"
  cout :: ostream
  trace :: "event list"

definition log_event :: "event \<Rightarrow> process \<Rightarrow> process" where
  "log_event e p = p\<lparr>trace := trace p @ [e]\<rparr>"

text \<open>The state in which the operating system starts the program: nothing written yet.\<close>

definition start_process :: "string list \<Rightarrow> (string \<times> string) list \<Rightarrow> process" where
  "start_process args env =
     \<lparr>argv = args, environ = env, cout = \<lparr>buffered = [], delivered = []\<rparr>, trace = []\<rparr>"

text \<open>\<^verbatim>\<open>std::cout << s\<close> and \<^verbatim>\<open>std::cout << std::endl\<close> as steps of the process.\<close>

definition cout_insert :: "string \<Rightarrow> process \<Rightarrow> process" where
  "cout_insert s p = log_event (Cout_insert s) (p\<lparr>cout := ostream_insert s (cout p)\<rparr>)"

definition cout_endl :: "process \<Rightarrow> process" where
  "cout_endl p = log_event Cout_endl (p\<lparr>cout := ostream_endl (cout p)\<rparr>)"

section \<open>The greeter classes\<close>

text \<open>
  Both classes declare no data member, so a class has exactly one object value.
  \<^verbatim>\<open>HelloShared() = default;\<close> and \<^verbatim>\<open>HelloStatic() = default;\<close> run no code: the
  constructor returns the object and leaves the process as it was (the ghost log apart).
  The destructors (\<^verbatim>\<open>~HelloStatic() = default;\<close>, and the implicit one of
  \<^verbatim>\<open>HelloShared\<close>) are trivial as well; they run when the entry point's scope ends and
  are not steps of the model.
\<close>

datatype HelloShared = HelloShared_object

datatype HelloStatic = HelloStatic_object

definition HelloShared_ctor :: "process \<Rightarrow> HelloShared \<times> process" where
  "HelloShared_ctor p = (HelloShared_object, log_event Construct_HelloShared p)"

definition HelloStatic_ctor :: "process \<Rightarrow> HelloStatic \<times> process" where
  "HelloStatic_ctor p = (HelloStatic_object, log_event Construct_HelloStatic p)"

text \<open>
  A caller that constructs greeters one after the other, of either class in any order
  and number, and keeps none of them.
\<close>

datatype greeter_class = Shared_class | Static_class

fun construct_each :: "greeter_class list \<Rightarrow> process \<Rightarrow> process" where
  "construct_each [] p = p"
| "construct_each (Shared_class # ks) p = construct_each ks (snd (HelloShared_ctor p))"
| "construct_each (Static_class # ks) p = construct_each ks (snd (HelloStatic_ctor p))"

fun construct_event :: "greeter_class \<Rightarrow> event" where
  "construct_event Shared_class = Construct_HelloShared"
| "construct_event Static_class = Construct_HelloStatic"

text \<open>
  The headers only declare \<^verbatim>\<open>auto sayHello() -> void;\<close>: the bodies live in the shared
  and the static library the executable is linked against, which are not among the
  sources. A \<open>linkage\<close> supplies them: each body receives the object and the stream and
  either returns the stream it leaves behind or does not return (\<open>None\<close>: it throws or
  runs forever; the declarations are not \<^verbatim>\<open>noexcept\<close>).
\<close>

record linkage =
  shared_sayHello :: "HelloShared \<Rightarrow> ostream \<Rightarrow> ostream option"
  static_sayHello :: "HelloStatic \<Rightarrow> ostream \<Rightarrow> ostream option"

text \<open>\<^verbatim>\<open>obj.sayHello()\<close> as a step of the process: the linked body runs on \<^verbatim>\<open>std::cout\<close>.\<close>

definition HelloShared_sayHello :: "linkage \<Rightarrow> HelloShared \<Rightarrow> process \<Rightarrow> process option" where
  "HelloShared_sayHello L obj p =
     (case shared_sayHello L obj (cout p) of
        None \<Rightarrow> None
      | Some c \<Rightarrow> Some (log_event Call_HelloShared_sayHello (p\<lparr>cout := c\<rparr>)))"

definition HelloStatic_sayHello :: "linkage \<Rightarrow> HelloStatic \<Rightarrow> process \<Rightarrow> process option" where
  "HelloStatic_sayHello L obj p =
     (case static_sayHello L obj (cout p) of
        None \<Rightarrow> None
      | Some c \<Rightarrow> Some (log_event Call_HelloStatic_sayHello (p\<lparr>cout := c\<rparr>)))"

section \<open>The entry point (main.cc)\<close>

text \<open>
  \<^verbatim>\<open>
  int main() {
    HelloShared shared_lib{};
    HelloStatic static_lib{};

    shared_lib.sayHello();
    static_lib.sayHello();

    std::cout << "Hello, World from executable!" << std::endl;
    return 0;
  }
  \<close>
  The result is the exit code and the process the run leaves behind, or \<open>None\<close> when a
  linked \<^verbatim>\<open>sayHello\<close> does not return.
\<close>

definition main :: "linkage \<Rightarrow> process \<Rightarrow> (int \<times> process) option" where
  "main L p0 =
     (let (shared_lib, p1) = HelloShared_ctor p0;
          (static_lib, p2) = HelloStatic_ctor p1
      in do {
        p3 \<leftarrow> HelloShared_sayHello L shared_lib p2;
        p4 \<leftarrow> HelloStatic_sayHello L static_lib p3;
        let p5 = cout_endl (cout_insert ''Hello, World from executable!'' p4);
        Some (0, p5)
      })"

text \<open>
  Running the program: \<^verbatim>\<open>main\<close> takes no parameters, so the command line and the
  environment reach it only as fields of the process it never reads.
\<close>

definition run_program ::
  "linkage \<Rightarrow> string list \<Rightarrow> (string \<times> string) list \<Rightarrow> (int \<times> process) option" where
  "run_program L args env = main L (start_process args env)"

text \<open>What an observer of a run sees: the exit code and the bytes on standard output.\<close>

definition observed :: "(int \<times> process) option \<Rightarrow> (int \<times> string) option" where
  "observed r = map_option (\<lambda>(rc, p). (rc, stdout_of (cout p))) r"

section \<open>The linked libraries, from the specification\<close>

text \<open>
  Modelled from the spec: the bodies of \<^verbatim>\<open>HelloShared::sayHello\<close> and
  \<^verbatim>\<open>HelloStatic::sayHello\<close> are missing from the sources. The specification gives
  their contract: the operation takes no arguments, returns no value, cannot fail, and
  its only observable side effect is writing a fixed greeting to the standard output
  stream, as one line of the program's output. The greeting text is an
  implementation-chosen literal, so it is a parameter here. Whether the body also
  flushes the stream is not specified; \<open>stdout_of\<close> is the same either way.
\<close>

record greetings =
  shared_text :: string
  static_text :: string

definition write_greeting :: "string \<Rightarrow> ostream \<Rightarrow> ostream option" where
  "write_greeting text c = Some (ostream_insert (text @ [newline]) c)"

definition spec_HelloShared_sayHello :: "greetings \<Rightarrow> HelloShared \<Rightarrow> ostream \<Rightarrow> ostream option" where
  "spec_HelloShared_sayHello g obj c = write_greeting (shared_text g) c"

definition spec_HelloStatic_sayHello :: "greetings \<Rightarrow> HelloStatic \<Rightarrow> ostream \<Rightarrow> ostream option" where
  "spec_HelloStatic_sayHello g obj c = write_greeting (static_text g) c"

definition spec_linkage :: "greetings \<Rightarrow> linkage" where
  "spec_linkage g =
     \<lparr>shared_sayHello = spec_HelloShared_sayHello g,
      static_sayHello = spec_HelloStatic_sayHello g\<rparr>"

text \<open>
  The correspondence between the two classes the specification speaks of when it calls
  their contracts identical: the one object of one class stands for the one object of
  the other.
\<close>

fun as_static :: "HelloShared \<Rightarrow> HelloStatic" where
  "as_static HelloShared_object = HelloStatic_object"

text \<open>Concrete greetings and a concrete start state, for the examples below.\<close>

definition example_greetings :: greetings where
  "example_greetings = \<lparr>shared_text = ''hello shared'', static_text = ''hello static''\<rparr>"

definition example_start :: process where
  "example_start = start_process [''hello''] []"

section \<open>Basic facts\<close>

lemma stdout_of_insert: "stdout_of (ostream_insert s c) = stdout_of c @ s"
  by (simp add: stdout_of_def ostream_insert_def)

lemma stdout_of_flush: "stdout_of (ostream_flush c) = stdout_of c"
  by (simp add: stdout_of_def ostream_flush_def)

lemma stdout_of_endl: "stdout_of (ostream_endl c) = stdout_of c @ [newline]"
  by (simp add: ostream_endl_def stdout_of_flush stdout_of_insert)

lemma split_lines_line:
  "newline \<notin> set a \<Longrightarrow> split_lines cur (a @ newline # rest) = (cur @ a) # split_lines [] rest"
  by (induction a arbitrary: cur) auto

lemma lines_of_line:
  "newline \<notin> set a \<Longrightarrow> lines_of (a @ newline # rest) = a # lines_of rest"
  by (simp add: lines_of_def split_lines_line)

lemma lines_of_Nil: "lines_of [] = []"
  by (simp add: lines_of_def)

lemma literal_no_newline: "newline \<notin> set ''Hello, World from executable!''"
  by (simp add: newline_def)

text \<open>
  The run of the entry point, given what the two linked bodies return: the shared body
  runs on the stream the process starts with, the static body on the stream the shared
  body left.
\<close>

lemma main_run:
  assumes "shared_sayHello L HelloShared_object (cout p) = Some c1"
    and "static_sayHello L HelloStatic_object c1 = Some c2"
  shows "main L p = Some (0,
    p\<lparr>cout := ostream_endl (ostream_insert ''Hello, World from executable!'' c2),
      trace := trace p @
        [Construct_HelloShared, Construct_HelloStatic,
         Call_HelloShared_sayHello, Call_HelloStatic_sayHello,
         Cout_insert ''Hello, World from executable!'', Cout_endl]\<rparr>)"
  using assms
  by (simp add: main_def HelloShared_ctor_def HelloStatic_ctor_def HelloShared_sayHello_def
      HelloStatic_sayHello_def cout_insert_def cout_endl_def log_event_def)

lemma main_None_shared:
  "shared_sayHello L HelloShared_object (cout p) = None \<Longrightarrow> main L p = None"
  by (simp add: main_def HelloShared_ctor_def HelloStatic_ctor_def HelloShared_sayHello_def
      log_event_def)

lemma main_None_static:
  "shared_sayHello L HelloShared_object (cout p) = Some c1 \<Longrightarrow>
   static_sayHello L HelloStatic_object c1 = None \<Longrightarrow> main L p = None"
  by (simp add: main_def HelloShared_ctor_def HelloStatic_ctor_def HelloShared_sayHello_def
      HelloStatic_sayHello_def log_event_def)

lemma spec_shared_returns:
  "shared_sayHello (spec_linkage g) obj c = Some (ostream_insert (shared_text g @ [newline]) c)"
  by (simp add: spec_linkage_def spec_HelloShared_sayHello_def write_greeting_def)

lemma spec_static_returns:
  "static_sayHello (spec_linkage g) obj c = Some (ostream_insert (static_text g @ [newline]) c)"
  by (simp add: spec_linkage_def spec_HelloStatic_sayHello_def write_greeting_def)

lemma construct_each_frame:
  "construct_each ks p = p\<lparr>trace := trace p @ map construct_event ks\<rparr>"
proof (induction ks arbitrary: p)
  case Nil
  show ?case by simp
next
  case (Cons k ks)
  show ?case
    by (cases k) (simp_all add: Cons.IH HelloShared_ctor_def HelloStatic_ctor_def log_event_def)
qed

lemma main_observed_cout:
  assumes "cout p = cout q"
  shows "observed (main L p) = observed (main L q)"
proof (cases "shared_sayHello L HelloShared_object (cout p)")
  case None
  with assms show ?thesis by (simp add: main_None_shared)
next
  case (Some c1)
  note shared = this
  show ?thesis
  proof (cases "static_sayHello L HelloStatic_object c1")
    case None
    with shared assms show ?thesis by (simp add: main_None_static)
  next
    case (Some c2)
    from shared Some have "observed (main L p) =
        Some (0, stdout_of (ostream_endl (ostream_insert ''Hello, World from executable!'' c2)))"
      by (simp add: main_run observed_def)
    moreover from shared Some assms have "observed (main L q) =
        Some (0, stdout_of (ostream_endl (ostream_insert ''Hello, World from executable!'' c2)))"
      by (simp add: main_run observed_def)
    ultimately show ?thesis by simp
  qed
qed

section \<open>The output of a run\<close>

text \<open>
  C1. A run of the program, started with nothing yet written, puts exactly three lines
  on standard output, in this order: the line the shared greeter's \<^verbatim>\<open>sayHello\<close> emits,
  the line the static greeter's \<^verbatim>\<open>sayHello\<close> emits, and the literal line
  \<^verbatim>\<open>Hello, World from executable!\<close>. The greeters' lines are whatever the linked
  bodies append: \<open>a\<close> and \<open>b\<close>, each ended by a newline.
\<close>

theorem program_output_three_lines:
  assumes "shared_sayHello L HelloShared_object (cout (start_process args env)) = Some c1"
    and "stdout_of c1 = a @ [newline]"
    and "newline \<notin> set a"
    and "static_sayHello L HelloStatic_object c1 = Some c2"
    and "stdout_of c2 = stdout_of c1 @ b @ [newline]"
    and "newline \<notin> set b"
  shows "observed (run_program L args env) =
      Some (0, a @ [newline] @ b @ [newline] @ ''Hello, World from executable!'' @ [newline])
    \<and> lines_of (a @ [newline] @ b @ [newline] @ ''Hello, World from executable!'' @ [newline]) =
      [a, b, ''Hello, World from executable!'']"
proof
  from assms(1,4) have "observed (run_program L args env) =
      Some (0, stdout_of (ostream_endl (ostream_insert ''Hello, World from executable!'' c2)))"
    by (simp add: run_program_def main_run observed_def)
  with assms(2,5) show "observed (run_program L args env) =
      Some (0, a @ [newline] @ b @ [newline] @ ''Hello, World from executable!'' @ [newline])"
    by (simp add: stdout_of_endl stdout_of_insert)
next
  have "lines_of (a @ newline # b @ newline # ''Hello, World from executable!'' @ newline # []) =
      [a, b, ''Hello, World from executable!'']"
    by (simp only: lines_of_line [OF assms(3)] lines_of_line [OF assms(6)]
        lines_of_line [OF literal_no_newline] lines_of_Nil)
  then show "lines_of (a @ [newline] @ b @ [newline] @ ''Hello, World from executable!'' @ [newline]) =
      [a, b, ''Hello, World from executable!'']"
    by simp
qed

theorem program_output_three_lines_witness:
  "observed (run_program (spec_linkage example_greetings) [''hello''] []) =
     Some (0, ''hello shared'' @ [newline] @ ''hello static'' @ [newline] @
       ''Hello, World from executable!'' @ [newline])
   \<and> lines_of (''hello shared'' @ [newline] @ ''hello static'' @ [newline] @
       ''Hello, World from executable!'' @ [newline]) =
     [''hello shared'', ''hello static'', ''Hello, World from executable!'']"
proof -
  let ?L = "spec_linkage example_greetings"
  let ?c0 = "cout (start_process [''hello''] [])"
  let ?c1 = "ostream_insert (shared_text example_greetings @ [newline]) ?c0"
  let ?c2 = "ostream_insert (static_text example_greetings @ [newline]) ?c1"
  have 1: "shared_sayHello ?L HelloShared_object ?c0 = Some ?c1"
    by (rule spec_shared_returns)
  have 2: "stdout_of ?c1 = ''hello shared'' @ [newline]"
    by (simp add: stdout_of_insert example_greetings_def)
      (simp add: stdout_of_def start_process_def)
  have 3: "newline \<notin> set ''hello shared''"
    by (simp add: newline_def)
  have 4: "static_sayHello ?L HelloStatic_object ?c1 = Some ?c2"
    by (rule spec_static_returns)
  have 5: "stdout_of ?c2 = stdout_of ?c1 @ ''hello static'' @ [newline]"
    by (simp add: stdout_of_insert example_greetings_def)
  have 6: "newline \<notin> set ''hello static''"
    by (simp add: newline_def)
  show ?thesis
    by (rule program_output_three_lines [OF 1 2 3 4 5 6])
qed

section \<open>The order of the entry point's operations\<close>

text \<open>
  C2. The entry point performs its operations in exactly this order: it constructs the
  \<^verbatim>\<open>HelloShared\<close> instance, then the \<^verbatim>\<open>HelloStatic\<close> instance, then calls the shared
  greeter's \<^verbatim>\<open>sayHello\<close>, then the static greeter's \<^verbatim>\<open>sayHello\<close>, then prints the
  literal string (followed by \<^verbatim>\<open>std::endl\<close>), and returns 0. The static body runs on
  the stream the shared body left, and the literal is written after both.
\<close>

theorem main_operation_order:
  assumes "shared_sayHello L HelloShared_object (cout p) = Some c1"
    and "static_sayHello L HelloStatic_object c1 = Some c2"
  shows "\<exists>p'. main L p = Some (0, p')
    \<and> trace p' = trace p @
        [Construct_HelloShared, Construct_HelloStatic,
         Call_HelloShared_sayHello, Call_HelloStatic_sayHello,
         Cout_insert ''Hello, World from executable!'', Cout_endl]
    \<and> cout p' = ostream_endl (ostream_insert ''Hello, World from executable!'' c2)"
  by (simp add: main_run [OF assms])

theorem main_operation_order_witness:
  "\<exists>p'. main (spec_linkage example_greetings) example_start = Some (0, p')
    \<and> trace p' =
        [Construct_HelloShared, Construct_HelloStatic,
         Call_HelloShared_sayHello, Call_HelloStatic_sayHello,
         Cout_insert ''Hello, World from executable!'', Cout_endl]
    \<and> stdout_of (cout p') =
        ''hello shared'' @ [newline] @ ''hello static'' @ [newline] @
        ''Hello, World from executable!'' @ [newline]"
proof -
  have t: "trace example_start = []"
    by (simp add: example_start_def start_process_def)
  have c: "stdout_of (cout example_start) = []"
    by (simp add: example_start_def start_process_def stdout_of_def)
  from main_operation_order [OF spec_shared_returns spec_static_returns,
      of example_greetings example_start]
  obtain p' where "main (spec_linkage example_greetings) example_start = Some (0, p')"
    and "trace p' = trace example_start @
        [Construct_HelloShared, Construct_HelloStatic,
         Call_HelloShared_sayHello, Call_HelloStatic_sayHello,
         Cout_insert ''Hello, World from executable!'', Cout_endl]"
    and "cout p' = ostream_endl (ostream_insert ''Hello, World from executable!''
        (ostream_insert (static_text example_greetings @ [newline])
          (ostream_insert (shared_text example_greetings @ [newline]) (cout example_start))))"
    by blast
  then show ?thesis
    by (simp add: t c stdout_of_endl stdout_of_insert example_greetings_def)
qed

section \<open>The exit code\<close>

text \<open>
  C3. Every run exits with code 0. The entry point has no failure path of its own: a run
  that returns returns 0, and the run returns whenever the two linked \<^verbatim>\<open>sayHello\<close>
  bodies return.
\<close>

theorem main_exit_code:
  "(\<forall>rc p'. main L p = Some (rc, p') \<longrightarrow> rc = 0)
   \<and> (\<forall>c1 c2. shared_sayHello L HelloShared_object (cout p) = Some c1 \<longrightarrow>
        static_sayHello L HelloStatic_object c1 = Some c2 \<longrightarrow>
        map_option fst (main L p) = Some 0)"
proof (intro conjI allI impI)
  fix rc p'
  assume r: "main L p = Some (rc, p')"
  show "rc = 0"
  proof (cases "shared_sayHello L HelloShared_object (cout p)")
    case None
    with r show ?thesis by (simp add: main_None_shared)
  next
    case (Some c1)
    note shared = this
    show ?thesis
    proof (cases "static_sayHello L HelloStatic_object c1")
      case None
      with shared r show ?thesis by (simp add: main_None_static)
    next
      case (Some c2)
      with shared r show ?thesis by (simp add: main_run)
    qed
  qed
next
  fix c1 c2
  assume "shared_sayHello L HelloShared_object (cout p) = Some c1"
    and "static_sayHello L HelloStatic_object c1 = Some c2"
  then show "map_option fst (main L p) = Some 0"
    by (simp add: main_run)
qed

theorem main_exit_code_witness:
  "map_option fst (main (spec_linkage example_greetings) example_start) = Some 0"
  using main_exit_code [of "spec_linkage example_greetings" example_start]
  by (simp add: spec_shared_returns spec_static_returns)

section \<open>Construction has no effect\<close>

text \<open>
  C4. Constructing greeters of either class, any number of times and in any order,
  changes nothing a program can observe: the command line, the environment and
  \<^verbatim>\<open>std::cout\<close> (what is buffered and what is delivered, so no output) are as before.
  Only the ghost log records the constructions.
\<close>

theorem construction_has_no_effect:
  "argv (construct_each ks p) = argv p
   \<and> environ (construct_each ks p) = environ p
   \<and> cout (construct_each ks p) = cout p
   \<and> stdout_of (cout (construct_each ks p)) = stdout_of (cout p)
   \<and> trace (construct_each ks p) = trace p @ map construct_event ks
   \<and> snd (HelloShared_ctor p) = p\<lparr>trace := trace p @ [Construct_HelloShared]\<rparr>
   \<and> snd (HelloStatic_ctor p) = p\<lparr>trace := trace p @ [Construct_HelloStatic]\<rparr>"
  by (simp add: construct_each_frame HelloShared_ctor_def HelloStatic_ctor_def log_event_def)

section \<open>Calling a greeter twice\<close>

text \<open>
  C5. Against the greeters of the specification: calling \<^verbatim>\<open>sayHello\<close> twice on the same
  instance emits the same line both times, the second after the first, whatever the
  stream held before; nothing accumulates between the calls. This holds for both
  classes.
\<close>

theorem sayHello_twice_same_line:
  "do {
     p1 \<leftarrow> HelloShared_sayHello (spec_linkage g) a p;
     p2 \<leftarrow> HelloShared_sayHello (spec_linkage g) a p1;
     Some (stdout_of (cout p1), stdout_of (cout p2))
   } = Some (stdout_of (cout p) @ shared_text g @ [newline],
             (stdout_of (cout p) @ shared_text g @ [newline]) @ shared_text g @ [newline])
   \<and> do {
     q1 \<leftarrow> HelloStatic_sayHello (spec_linkage g) b p;
     q2 \<leftarrow> HelloStatic_sayHello (spec_linkage g) b q1;
     Some (stdout_of (cout q1), stdout_of (cout q2))
   } = Some (stdout_of (cout p) @ static_text g @ [newline],
             (stdout_of (cout p) @ static_text g @ [newline]) @ static_text g @ [newline])"
  by (simp add: HelloShared_sayHello_def HelloStatic_sayHello_def spec_shared_returns
      spec_static_returns log_event_def stdout_of_insert)

section \<open>Determinism\<close>

text \<open>
  C6. What a run shows (its exit code and the bytes on standard output) is the same for
  any two runs, whatever command line and environment each is started with: the entry
  point reads neither.
\<close>

theorem run_program_deterministic:
  "observed (run_program L args1 env1) = observed (run_program L args2 env2)"
  unfolding run_program_def
  by (rule main_observed_cout) (simp add: start_process_def)

section \<open>The two greeter classes have the same contract\<close>

text \<open>
  C7. Against the greeters of the specification: \<^verbatim>\<open>HelloShared\<close> and \<^verbatim>\<open>HelloStatic\<close>
  correspond one to one; constructing either leaves \<^verbatim>\<open>std::cout\<close> alone; and given the
  same greeting text \<open>t\<close>, the \<^verbatim>\<open>sayHello\<close> of corresponding objects does the same to
  the stream: it returns, and appends \<open>t\<close> and a newline.
\<close>

theorem greeters_same_contract:
  "bij as_static
   \<and> as_static (fst (HelloShared_ctor p)) = fst (HelloStatic_ctor p)
   \<and> cout (snd (HelloShared_ctor p)) = cout p
   \<and> cout (snd (HelloStatic_ctor p)) = cout p
   \<and> map_option cout
        (HelloShared_sayHello (spec_linkage \<lparr>shared_text = t, static_text = u\<rparr>) a p) =
      map_option cout
        (HelloStatic_sayHello (spec_linkage \<lparr>shared_text = v, static_text = t\<rparr>) (as_static a) p)
   \<and> map_option (stdout_of \<circ> cout)
        (HelloShared_sayHello (spec_linkage \<lparr>shared_text = t, static_text = u\<rparr>) a p) =
      Some (stdout_of (cout p) @ t @ [newline])"
proof -
  have "bij as_static"
  proof (rule bijI)
    show "inj as_static"
      by (rule injI) (metis HelloShared.exhaust)
    show "surj as_static"
      by (rule surjI [where f = "\<lambda>_. HelloShared_object"]) (metis HelloStatic.exhaust as_static.simps)
  qed
  then show ?thesis
    by (simp add: HelloShared_ctor_def HelloStatic_ctor_def HelloShared_sayHello_def
        HelloStatic_sayHello_def spec_shared_returns spec_static_returns log_event_def
        stdout_of_insert)
qed

section \<open>Termination\<close>

text \<open>
  C8. The entry point is one straight run of operations: it returns exactly when both
  linked \<^verbatim>\<open>sayHello\<close> bodies return, and then it has performed six steps, each once:
  two constructions, two greeting calls, and the print (the insertion of the literal
  and \<^verbatim>\<open>std::endl\<close>).
\<close>

theorem main_terminates:
  "(main L p = None \<longleftrightarrow>
      shared_sayHello L HelloShared_object (cout p) = None
      \<or> (\<exists>c1. shared_sayHello L HelloShared_object (cout p) = Some c1
            \<and> static_sayHello L HelloStatic_object c1 = None))
   \<and> (\<forall>c1 c2. shared_sayHello L HelloShared_object (cout p) = Some c1 \<longrightarrow>
        static_sayHello L HelloStatic_object c1 = Some c2 \<longrightarrow>
        (\<exists>p' steps. main L p = Some (0, p') \<and> trace p' = trace p @ steps
           \<and> length steps = 6 \<and> distinct steps
           \<and> set steps = {Construct_HelloShared, Construct_HelloStatic,
                Call_HelloShared_sayHello, Call_HelloStatic_sayHello,
                Cout_insert ''Hello, World from executable!'', Cout_endl}))"
proof (intro conjI allI impI)
  show "main L p = None \<longleftrightarrow>
      shared_sayHello L HelloShared_object (cout p) = None
      \<or> (\<exists>c1. shared_sayHello L HelloShared_object (cout p) = Some c1
            \<and> static_sayHello L HelloStatic_object c1 = None)"
  proof (cases "shared_sayHello L HelloShared_object (cout p)")
    case None
    then show ?thesis by (simp add: main_None_shared)
  next
    case (Some c1)
    note shared = this
    show ?thesis
    proof (cases "static_sayHello L HelloStatic_object c1")
      case None
      with shared show ?thesis by (simp add: main_None_static)
    next
      case (Some c2)
      with shared show ?thesis by (simp add: main_run)
    qed
  qed
next
  fix c1 c2
  assume "shared_sayHello L HelloShared_object (cout p) = Some c1"
    and "static_sayHello L HelloStatic_object c1 = Some c2"
  then show "\<exists>p' steps. main L p = Some (0, p') \<and> trace p' = trace p @ steps
           \<and> length steps = 6 \<and> distinct steps
           \<and> set steps = {Construct_HelloShared, Construct_HelloStatic,
                Call_HelloShared_sayHello, Call_HelloStatic_sayHello,
                Cout_insert ''Hello, World from executable!'', Cout_endl}"
    by (simp add: main_run)
qed

theorem main_terminates_witness:
  "\<exists>p' steps. main (spec_linkage example_greetings) example_start = Some (0, p')
     \<and> trace p' = steps \<and> length steps = 6 \<and> distinct steps"
proof -
  have t: "trace example_start = []"
    by (simp add: example_start_def start_process_def)
  from main_terminates [of "spec_linkage example_greetings" example_start]
  have "\<exists>p' steps. main (spec_linkage example_greetings) example_start = Some (0, p')
      \<and> trace p' = trace example_start @ steps \<and> length steps = 6 \<and> distinct steps
      \<and> set steps = {Construct_HelloShared, Construct_HelloStatic,
           Call_HelloShared_sayHello, Call_HelloStatic_sayHello,
           Cout_insert ''Hello, World from executable!'', Cout_endl}"
    by (simp add: spec_shared_returns spec_static_returns)
  then show ?thesis
    unfolding t by auto
qed

section \<open>The last line is ended and flushed\<close>

text \<open>
  C9. The entry point writes its literal message and then \<^verbatim>\<open>std::endl\<close>: when it
  returns, everything written so far has been delivered to standard output, nothing is
  left in the buffer, and the delivered bytes end with the literal followed by a
  newline character.
\<close>

theorem main_flushes_last_line:
  assumes "shared_sayHello L HelloShared_object (cout p) = Some c1"
    and "static_sayHello L HelloStatic_object c1 = Some c2"
  shows "\<exists>p'. main L p = Some (0, p')
    \<and> buffered (cout p') = []
    \<and> delivered (cout p') = stdout_of c2 @ ''Hello, World from executable!'' @ [newline]"
  by (simp add: main_run [OF assms] ostream_endl_def ostream_flush_def ostream_insert_def
      stdout_of_def)

theorem main_flushes_last_line_witness:
  "\<exists>p'. main (spec_linkage example_greetings) example_start = Some (0, p')
    \<and> buffered (cout p') = []
    \<and> delivered (cout p') =
        ''hello shared'' @ [newline] @ ''hello static'' @ [newline] @
        ''Hello, World from executable!'' @ [newline]"
proof -
  have c: "stdout_of (cout example_start) = []"
    by (simp add: example_start_def start_process_def stdout_of_def)
  from main_flushes_last_line [OF spec_shared_returns spec_static_returns,
      of example_greetings example_start]
  show ?thesis
    by (simp add: c stdout_of_insert example_greetings_def)
qed

section \<open>Instances are indistinguishable\<close>

text \<open>
  C10. Neither class has a data member: any two instances of the same class are equal,
  and whatever bodies are linked, \<^verbatim>\<open>sayHello\<close> does the same on every instance.
\<close>

theorem instances_indistinguishable:
  "(a :: HelloShared) = a'
   \<and> (b :: HelloStatic) = b'
   \<and> HelloShared_sayHello L a p = HelloShared_sayHello L a' p
   \<and> HelloStatic_sayHello L b p = HelloStatic_sayHello L b' p"
proof -
  have "a = a'" by (cases a, cases a') simp
  moreover have "b = b'" by (cases b, cases b') simp
  ultimately show ?thesis by simp
qed

end
